theory Spec2Isabelle
  imports Main "HOL-Library.AList" "HOL-Library.Sublist"
begin

section \<open>The virtual TypeScript file system (packages/typescript-vfs/src/index.ts)\<close>

text \<open>
  A shallow embedding of \<^verbatim>\<open>index.ts\<close>. Every closure of the source captures mutable
  variables (\<^verbatim>\<open>files\<close>, \<^verbatim>\<open>sourceFiles\<close>, \<^verbatim>\<open>fileNames\<close>, \<^verbatim>\<open>fileVersions\<close>,
  \<^verbatim>\<open>projectVersion\<close>); here they are the fields of an explicit state that each operation
  takes and returns. An operation that can throw returns the pair of its outcome
  (\<open>Inl\<close> the error, \<open>Inr\<close> the value) and the state at the moment it exits, so that
  what a throwing call leaves behind is a statement about the model.

  Strings. A path, a version token and a message are \<open>string\<close>s, one \<open>char\<close> standing
  for one code unit of the JavaScript string. File contents are lists over an arbitrary
  code-unit type \<open>'c\<close>: the source only slices, concatenates, measures and tests them
  for emptiness.
\<close>

subsection \<open>JavaScript values used by the source\<close>

datatype error = Error string | TypeError

text \<open>\<^verbatim>\<open>s.slice(b, e)\<close> and \<^verbatim>\<open>s.slice(b)\<close> on integers: a negative index counts from the
  end, every index is clamped to the length.\<close>

definition slice :: "'a list \<Rightarrow> int \<Rightarrow> int \<Rightarrow> 'a list" where
  "slice s b e =
     (let n = int (length s);
          from = (if b < 0 then max (n + b) 0 else min b n);
          to = (if e < 0 then max (n + e) 0 else min e n)
      in take (nat (to - from)) (drop (nat from) s))"

definition slice_from :: "'a list \<Rightarrow> int \<Rightarrow> 'a list" where
  "slice_from s b = slice s b (int (length s))"

text \<open>\<^verbatim>\<open>n.toString()\<close> of a non-negative integer: its decimal digits.\<close>

definition digit :: "nat \<Rightarrow> char" where
  "digit d = ''0123456789'' ! d"

fun toString :: "nat \<Rightarrow> string" where
  "toString n = (if n < 10 then [digit n] else toString (n div 10) @ [digit (n mod 10)])"

declare toString.simps [simp del]

text \<open>\<^verbatim>\<open>s.toLowerCase()\<close>, on the ASCII letters (the names of the members of
  \<^verbatim>\<open>ts.ScriptTarget\<close>, its only arguments in the source, are ASCII identifiers).\<close>

definition toLowerCase_char :: "char \<Rightarrow> char" where
  "toLowerCase_char c =
     (case map_of (zip ''ABCDEFGHIJKLMNOPQRSTUVWXYZ'' ''abcdefghijklmnopqrstuvwxyz'') c of
        None \<Rightarrow> c
      | Some l \<Rightarrow> l)"

definition toLowerCase :: "string \<Rightarrow> string" where
  "toLowerCase s = map toLowerCase_char s"

text \<open>\<^verbatim>\<open>xs.pop()\<close> (the value it returns) and \<^verbatim>\<open>xs.indexOf(x)\<close>, where \<open>None\<close> is
  \<^verbatim>\<open>undefined\<close>: no array of strings contains it.\<close>

definition pop :: "'a list \<Rightarrow> 'a option" where
  "pop xs = (if xs = [] then None else Some (last xs))"

fun indexOf_from :: "int \<Rightarrow> 'a list \<Rightarrow> 'a \<Rightarrow> int" where
  "indexOf_from k [] x = -1"
| "indexOf_from k (y # ys) x = (if y = x then k else indexOf_from (k + 1) ys x)"

definition indexOf :: "'a list \<Rightarrow> 'a option \<Rightarrow> int" where
  "indexOf xs x = (case x of None \<Rightarrow> -1 | Some v \<Rightarrow> indexOf_from 0 xs v)"

subsection \<open>notImplemented\<close>

definition notImplemented :: "string \<Rightarrow> error + 'a" where
  "notImplemented methodName =
     Inl (Error (''Method '' @ [CHR 0x27] @ methodName @ [CHR 0x27] @ '' is not implemented.''))"

subsection \<open>createSystem\<close>

text \<open>
  \<^verbatim>\<open>Map<string, string>\<close>: the entries in insertion order. \<^verbatim>\<open>files.set\<close> replaces the
  value of a key that is present where it stands and appends a new key otherwise, which
  is \<^const>\<open>AList.update\<close>; \<^verbatim>\<open>files.get\<close> is \<^const>\<open>map_of\<close>. The functions below are the
  members of the object \<^verbatim>\<open>createSystem\<close> returns, as functions of the current value of
  its private \<^verbatim>\<open>files\<close>. The constant \<^verbatim>\<open>AUDIT\<close> is \<^verbatim>\<open>false\<close>, so \<^verbatim>\<open>audit(name, fn)\<close>
  is \<^verbatim>\<open>fn\<close>.
\<close>

type_synonym 'c Files = "(string \<times> 'c list) list"

definition createDirectory :: "'c Files \<Rightarrow> (error + unit) \<times> 'c Files" where
  "createDirectory files = (notImplemented ''createDirectory'', files)"

definition directoryExists :: "'c Files \<Rightarrow> string \<Rightarrow> bool" where
  "directoryExists files directory = list_ex (\<lambda>path. prefix directory path) (map fst files)"

definition exit :: "'c Files \<Rightarrow> (error + unit) \<times> 'c Files" where
  "exit files = (notImplemented ''exit'', files)"

definition fileExists :: "'c Files \<Rightarrow> string \<Rightarrow> bool" where
  "fileExists files fileName = (map_of files fileName \<noteq> None)"

definition getCurrentDirectory :: "'c Files \<Rightarrow> string" where
  "getCurrentDirectory files = ''/''"

definition getExecutingFilePath :: "'c Files \<Rightarrow> (error + string) \<times> 'c Files" where
  "getExecutingFilePath files = (notImplemented ''getExecutingFilePath'', files)"

definition readDirectory :: "'c Files \<Rightarrow> string \<Rightarrow> string list" where
  "readDirectory files directory = (if directory = ''/'' then map fst files else [])"

definition readFile :: "'c Files \<Rightarrow> string \<Rightarrow> 'c list option" where
  "readFile files fileName = map_of files fileName"

definition write' :: "'c Files \<Rightarrow> (error + unit) \<times> 'c Files" where
  "write' files = (notImplemented ''write'', files)"

definition writeFile :: "'c Files \<Rightarrow> string \<Rightarrow> 'c list \<Rightarrow> 'c Files" where
  "writeFile files fileName contents = AList.update fileName contents files"

text \<open>\<^verbatim>\<open>files = new Map(files)\<close>: a new map, filled by setting the entries of the given
  one in their order.\<close>

definition createSystem :: "'c Files \<Rightarrow> 'c Files" where
  "createSystem files = foldl (\<lambda>m (fileName, contents). AList.update fileName contents m) [] files"

subsection \<open>The TypeScript module \<^verbatim>\<open>ts\<close>\<close>

text \<open>
  Every function of the source takes the compiler as its parameter \<^verbatim>\<open>ts\<close>, and so does
  the model: \<open>'c TS\<close> holds the members of the module that the source calls. A
  \<^verbatim>\<open>SourceFile\<close> is represented by what the source reads of it (its \<^verbatim>\<open>fileName\<close> and
  \<^verbatim>\<open>text\<close>) and the language version it was parsed at; \<^verbatim>\<open>CompilerOptions\<close> by its
  \<^verbatim>\<open>target\<close>, the only option the source reads: \<open>None\<close> when the object has no such key,
  \<open>Some None\<close> when the key is there with the value \<^verbatim>\<open>undefined\<close>. \<open>getProgramSourceFile ts h fileName\<close> is
  \<^verbatim>\<open>languageService.getProgram()!.getSourceFile(fileName)\<close> for the language service
  created on the host \<open>h\<close>, and \<open>ScriptTarget ts\<close> is the reverse mapping
  \<^verbatim>\<open>ts.ScriptTarget[target]\<close> of the enumeration, from its numbers to its names. The
  members are functions: a run in which a call of the compiler itself throws, as
  \<^verbatim>\<open>ts.updateSourceFile\<close> does for a span that does not lie within the text, is not a run
  of the model.
\<close>

record 'c SourceFile =
  fileName :: string
  text' :: "'c list"
  languageVersion :: "nat option"

record TextSpan =
  start :: int
  length' :: int

record TextChangeRange =
  span :: TextSpan
  newLength :: nat

record CompilerOptions =
  target :: "nat option option"

record 'c LanguageServiceHost =
  getProjectVersion :: string
  getCompilationSettings :: CompilerOptions
  getScriptFileNames :: "string list"
  getScriptSnapshot :: "string \<Rightarrow> 'c list option"
  getScriptVersion :: "string \<Rightarrow> string"

record 'c TS =
  createSourceFile :: "string \<Rightarrow> 'c list \<Rightarrow> nat option \<Rightarrow> 'c SourceFile"
  updateSourceFile :: "'c SourceFile \<Rightarrow> 'c list \<Rightarrow> TextChangeRange \<Rightarrow> 'c SourceFile"
  getProgramSourceFile :: "'c LanguageServiceHost \<Rightarrow> string \<Rightarrow> 'c SourceFile option"
  getCompilerOptionsDiagnostics :: "'c LanguageServiceHost \<Rightarrow> string list"
  formatDiagnostics :: "string list \<Rightarrow> string"
  ScriptTarget :: "nat \<Rightarrow> string option"

definition ES2015 :: nat where
  "ES2015 = 2"

definition defaultCompilerOptions :: CompilerOptions where
  "defaultCompilerOptions = \<lparr>target = Some (Some ES2015)\<rparr>"

text \<open>\<^verbatim>\<open>{ ...defaultCompilerOptions(ts), ...compilerOptions }\<close>: a key of the caller's
  options replaces the default, also when its value is \<^verbatim>\<open>undefined\<close>.\<close>

definition mergeCompilerOptions :: "CompilerOptions \<Rightarrow> CompilerOptions \<Rightarrow> CompilerOptions" where
  "mergeCompilerOptions defaults compilerOptions =
     \<lparr>target = (case target compilerOptions of None \<Rightarrow> target defaults | Some t \<Rightarrow> Some t)\<rparr>"

text \<open>\<^verbatim>\<open>compilerOptions.target\<close>, which is \<^verbatim>\<open>undefined\<close> also when the key is absent.\<close>

definition target_of :: "CompilerOptions \<Rightarrow> nat option" where
  "target_of compilerOptions = (case target compilerOptions of None \<Rightarrow> None | Some t \<Rightarrow> t)"

subsection \<open>createVirtualCompilerHost and createVirtualLanguageServiceHost\<close>

text \<open>
  The variables the closures of the two hosts and of the system capture. \<open>files\<close> is
  iterated, so it keeps its order; \<open>sourceFiles\<close> and \<open>fileVersions\<close> are only looked up
  and set. \<open>projectVersion\<close> is a JavaScript number that starts at 0 and that only
  \<^verbatim>\<open>projectVersion++\<close> changes: a natural number, which a number holds exactly below
  \<open>2 ^ 53\<close>, more updates than a run can make. Of the members of the two hosts the
  development keeps those the environment and the language service use; the language
  service reads a file through \<^verbatim>\<open>getScriptSnapshot\<close>, not through \<^verbatim>\<open>getSourceFile\<close>, and
  it writes to no variable of the hosts.
\<close>

record 'c Env =
  files :: "'c Files"
  sourceFiles :: "string \<rightharpoonup> 'c SourceFile"
  fileNames :: "string list"
  fileVersions :: "string \<rightharpoonup> string"
  projectVersion :: nat
  compilerOptions :: CompilerOptions

text \<open>\<^verbatim>\<open>vHost.updateFile\<close>.\<close>

definition vHost_updateFile :: "'c SourceFile \<Rightarrow> 'c Env \<Rightarrow> bool \<times> 'c Env" where
  "vHost_updateFile sourceFile s =
     (let alreadyExists = (sourceFiles s (fileName sourceFile) \<noteq> None);
          s1 = s\<lparr>files := writeFile (files s) (fileName sourceFile) (text' sourceFile)\<rparr>;
          s2 = s1\<lparr>sourceFiles := (sourceFiles s1)(fileName sourceFile \<mapsto> sourceFile)\<rparr>
      in (alreadyExists, s2))"

text \<open>The state \<^verbatim>\<open>createVirtualLanguageServiceHost(sys, rootFiles, compilerOptions, ts)\<close>
  starts in, \<open>sys\<close> being the files of a system made by \<^const>\<open>createSystem\<close>.\<close>

definition createVirtualLanguageServiceHost ::
    "'c Files \<Rightarrow> string list \<Rightarrow> CompilerOptions \<Rightarrow> 'c Env" where
  "createVirtualLanguageServiceHost sys rootFiles options =
     \<lparr>files = sys, sourceFiles = Map.empty, fileNames = rootFiles, fileVersions = Map.empty,
      projectVersion = 0, compilerOptions = options\<rparr>"

text \<open>The object \<^verbatim>\<open>languageServiceHost\<close>, as the language service finds it in the state
  \<open>s\<close>. A string is true in a JavaScript condition when it is not empty.\<close>

definition languageServiceHost :: "'c Env \<Rightarrow> 'c LanguageServiceHost" where
  "languageServiceHost s =
     \<lparr>getProjectVersion = toString (projectVersion s),
      getCompilationSettings = compilerOptions s,
      getScriptFileNames = fileNames s,
      getScriptSnapshot = (\<lambda>fname.
        case readFile (files s) fname of
          None \<Rightarrow> None
        | Some contents \<Rightarrow> if contents \<noteq> [] then Some contents else None),
      getScriptVersion = (\<lambda>fname.
        case fileVersions s fname of
          None \<Rightarrow> ''0''
        | Some v \<Rightarrow> if v \<noteq> [] then v else ''0'')\<rparr>"

text \<open>\<^verbatim>\<open>lsHost.updateFile\<close>.\<close>

definition lsHost_updateFile :: "'c SourceFile \<Rightarrow> 'c Env \<Rightarrow> 'c Env" where
  "lsHost_updateFile sourceFile s =
     (let s1 = s\<lparr>projectVersion := projectVersion s + 1\<rparr>;
          s2 = s1\<lparr>fileVersions :=
                 (fileVersions s1)(fileName sourceFile \<mapsto> toString (projectVersion s1))\<rparr>;
          s3 = (if fileName sourceFile \<notin> set (fileNames s2)
                then s2\<lparr>fileNames := fileNames s2 @ [fileName sourceFile]\<rparr>
                else s2)
      in snd (vHost_updateFile sourceFile s3))"

subsection \<open>createVirtualTypeScriptEnvironment\<close>

definition createVirtualTypeScriptEnvironment ::
    "'c Files \<Rightarrow> string list \<Rightarrow> 'c TS \<Rightarrow> CompilerOptions \<Rightarrow> error + 'c Env" where
  "createVirtualTypeScriptEnvironment sys rootFiles ts options =
     (let mergedCompilerOptions = mergeCompilerOptions defaultCompilerOptions options;
          s = createVirtualLanguageServiceHost sys rootFiles mergedCompilerOptions;
          diagnostics = getCompilerOptionsDiagnostics ts (languageServiceHost s)
      in if diagnostics \<noteq> [] then Inl (Error (formatDiagnostics ts diagnostics)) else Inr s)"

text \<open>The members \<^verbatim>\<open>createFile\<close> and \<^verbatim>\<open>updateFile\<close> of the environment. Reading
  \<^verbatim>\<open>.text\<close> of the \<^verbatim>\<open>undefined\<close> that \<^verbatim>\<open>getSourceFile\<close> returns for a file the program
  does not have throws a \<^verbatim>\<open>TypeError\<close>.\<close>

definition createFile :: "'c TS \<Rightarrow> string \<Rightarrow> 'c list \<Rightarrow> 'c Env \<Rightarrow> 'c Env" where
  "createFile ts fname content s =
     lsHost_updateFile (createSourceFile ts fname content (target_of (compilerOptions s))) s"

definition updateFile ::
    "'c TS \<Rightarrow> string \<Rightarrow> 'c list \<Rightarrow> TextSpan \<Rightarrow> 'c Env \<Rightarrow> (error + unit) \<times> 'c Env" where
  "updateFile ts fname content prevTextSpan s =
     (case getProgramSourceFile ts (languageServiceHost s) fname of
        None \<Rightarrow> (Inl TypeError, s)
      | Some prevSourceFile \<Rightarrow>
          (let prevFullContents = text' prevSourceFile;
               newText =
                 slice prevFullContents 0 (start prevTextSpan) @
                 content @
                 slice_from prevFullContents (start prevTextSpan + length' prevTextSpan);
               newSourceFile =
                 updateSourceFile ts prevSourceFile newText
                   \<lparr>span = prevTextSpan, newLength = length content\<rparr>
           in (Inr (), lsHost_updateFile newSourceFile s)))"

subsection \<open>knownLibFilesForTarget\<close>

text \<open>The table \<^verbatim>\<open>files\<close> of the function.\<close>

definition lib_files :: "string list" where
  "lib_files =
     [''lib.d.ts'',
      ''lib.dom.d.ts'',
      ''lib.dom.iterable.d.ts'',
      ''lib.es5.d.ts'',
      ''lib.es6.d.ts'',
      ''lib.es2015.collection.d.ts'',
      ''lib.es2015.core.d.ts'',
      ''lib.es2015.d.ts'',
      ''lib.es2015.generator.d.ts'',
      ''lib.es2015.iterable.d.ts'',
      ''lib.es2015.promise.d.ts'',
      ''lib.es2015.proxy.d.ts'',
      ''lib.es2015.reflect.d.ts'',
      ''lib.es2015.symbol.d.ts'',
      ''lib.es2015.symbol.wellknown.d.ts'',
      ''lib.es2016.array.include.d.ts'',
      ''lib.es2016.d.ts'',
      ''lib.es2016.full.d.ts'',
      ''lib.es2017.d.ts'',
      ''lib.es2017.full.d.ts'',
      ''lib.es2017.intl.d.ts'',
      ''lib.es2017.object.d.ts'',
      ''lib.es2017.sharedmemory.d.ts'',
      ''lib.es2017.string.d.ts'',
      ''lib.es2017.typedarrays.d.ts'',
      ''lib.es2018.asyncgenerator.d.ts'',
      ''lib.es2018.asynciterable.d.ts'',
      ''lib.es2018.d.ts'',
      ''lib.es2018.full.d.ts'',
      ''lib.es2018.intl.d.ts'',
      ''lib.es2018.promise.d.ts'',
      ''lib.es2018.regexp.d.ts'',
      ''lib.es2019.array.d.ts'',
      ''lib.es2019.d.ts'',
      ''lib.es2019.full.d.ts'',
      ''lib.es2019.object.d.ts'',
      ''lib.es2019.string.d.ts'',
      ''lib.es2019.symbol.d.ts'',
      ''lib.es2020.d.ts'',
      ''lib.es2020.full.d.ts'',
      ''lib.es2020.string.d.ts'',
      ''lib.es2020.symbol.wellknown.d.ts'',
      ''lib.esnext.array.d.ts'',
      ''lib.esnext.asynciterable.d.ts'',
      ''lib.esnext.bigint.d.ts'',
      ''lib.esnext.d.ts'',
      ''lib.esnext.full.d.ts'',
      ''lib.esnext.intl.d.ts'',
      ''lib.esnext.symbol.d.ts'']"

text \<open>\<^verbatim>\<open>ts.ScriptTarget[target]\<close> is \<^verbatim>\<open>undefined\<close> for a number that is no member of the
  enumeration, and \<^verbatim>\<open>toLowerCase\<close> of it throws. The body is written over the list
  \<open>fs\<close> of file names, which the source binds to the table above.\<close>

definition knownLibFilesIn :: "string list \<Rightarrow> string \<Rightarrow> string list" where
  "knownLibFilesIn fs targetToCut =
     (let matches = filter (\<lambda>f. prefix (''lib.'' @ toLowerCase targetToCut) f) fs;
          cutIndex = indexOf fs (pop matches)
      in slice fs 0 (cutIndex + 1))"

definition knownLibFilesForTarget :: "nat \<Rightarrow> 'c TS \<Rightarrow> error + string list" where
  "knownLibFilesForTarget tgt ts =
     (case ScriptTarget ts tgt of
        None \<Rightarrow> Inl TypeError
      | Some targetToCut \<Rightarrow> Inr (knownLibFilesIn lib_files targetToCut))"

subsection \<open>The map given to createSystem and the map it keeps\<close>

text \<open>
  Whether \<^verbatim>\<open>createSystem\<close> shares the map it is given is a question about objects, not
  values. For it the \<^verbatim>\<open>Map\<close> objects live in a store, a list indexed by their
  addresses; an allocation appends a cell. A \<open>System\<close> is the address of the map its
  closures captured, and its members read and write the store through that address.
  \<open>h[a := m]\<close> is any mutation by other code of the map at address \<open>a\<close>.
\<close>

type_synonym 'c Store = "'c Files list"

record System =
  filesRef :: nat

definition createSystem_at :: "'c Store \<Rightarrow> nat \<Rightarrow> System \<times> 'c Store" where
  "createSystem_at h a = (\<lparr>filesRef = length h\<rparr>, h @ [createSystem (h ! a)])"

definition sys_fileExists :: "System \<Rightarrow> 'c Store \<Rightarrow> string \<Rightarrow> bool" where
  "sys_fileExists sys h fname = fileExists (h ! filesRef sys) fname"

definition sys_readFile :: "System \<Rightarrow> 'c Store \<Rightarrow> string \<Rightarrow> 'c list option" where
  "sys_readFile sys h fname = readFile (h ! filesRef sys) fname"

definition sys_directoryExists :: "System \<Rightarrow> 'c Store \<Rightarrow> string \<Rightarrow> bool" where
  "sys_directoryExists sys h directory = directoryExists (h ! filesRef sys) directory"

definition sys_readDirectory :: "System \<Rightarrow> 'c Store \<Rightarrow> string \<Rightarrow> string list" where
  "sys_readDirectory sys h directory = readDirectory (h ! filesRef sys) directory"

definition sys_writeFile :: "System \<Rightarrow> string \<Rightarrow> 'c list \<Rightarrow> 'c Store \<Rightarrow> 'c Store" where
  "sys_writeFile sys fname contents h =
     h[filesRef sys := writeFile (h ! filesRef sys) fname contents]"

subsection \<open>Sequences of calls on one environment\<close>

text \<open>A caller of the environment makes one call after the other; a call that throws
  leaves the state it threw in, and the caller may go on.\<close>

datatype 'c call = CreateFile string "'c list" | UpdateFile string "'c list" TextSpan

fun call_path :: "'c call \<Rightarrow> string" where
  "call_path (CreateFile fname content) = fname"
| "call_path (UpdateFile fname content prevTextSpan) = fname"

fun exec :: "'c TS \<Rightarrow> 'c call \<Rightarrow> 'c Env \<Rightarrow> (error + unit) \<times> 'c Env" where
  "exec ts (CreateFile fname content) s = (Inr (), createFile ts fname content s)"
| "exec ts (UpdateFile fname content prevTextSpan) s = updateFile ts fname content prevTextSpan s"

fun run :: "'c TS \<Rightarrow> 'c call list \<Rightarrow> 'c Env \<Rightarrow> 'c Env" where
  "run ts [] s = s"
| "run ts (c # cs) s = run ts cs (snd (exec ts c s))"

text \<open>The project version tokens a caller reads, one after each call that returned.\<close>

fun observed :: "'c TS \<Rightarrow> 'c call list \<Rightarrow> 'c Env \<Rightarrow> string list" where
  "observed ts [] s = []"
| "observed ts (c # cs) s =
     (case exec ts c s of
        (Inl e, s') \<Rightarrow> observed ts cs s'
      | (Inr u, s') \<Rightarrow> getProjectVersion (languageServiceHost s') # observed ts cs s')"

text \<open>
  The source file that a call passes to the host's \<^verbatim>\<open>updateFile\<close>, if it passes one:
  the one \<^verbatim>\<open>ts.createSourceFile\<close> makes for \<open>createFile\<close>, the one \<^verbatim>\<open>ts.updateSourceFile\<close>
  makes for an \<open>updateFile\<close> that finds the file in the program. The host files the
  content, the version and the root name under the \<^verbatim>\<open>fileName\<close> of this source file,
  which the compiler chooses, not under the path of the call. \<open>routed_names\<close> lists
  these names along a sequence of calls.
\<close>

fun routed :: "'c TS \<Rightarrow> 'c call \<Rightarrow> 'c Env \<Rightarrow> 'c SourceFile option" where
  "routed ts (CreateFile fname content) s =
     Some (createSourceFile ts fname content (target_of (compilerOptions s)))"
| "routed ts (UpdateFile fname content prevTextSpan) s =
     (case getProgramSourceFile ts (languageServiceHost s) fname of
        None \<Rightarrow> None
      | Some prevSourceFile \<Rightarrow>
          Some (updateSourceFile ts prevSourceFile
                 (slice (text' prevSourceFile) 0 (start prevTextSpan) @
                  content @
                  slice_from (text' prevSourceFile)
                    (start prevTextSpan + length' prevTextSpan))
                 \<lparr>span = prevTextSpan, newLength = length content\<rparr>))"

fun routed_names :: "'c TS \<Rightarrow> 'c call list \<Rightarrow> 'c Env \<Rightarrow> string list" where
  "routed_names ts [] s = []"
| "routed_names ts (c # cs) s =
     (case routed ts c s of None \<Rightarrow> [] | Some sf \<Rightarrow> [fileName sf]) @
     routed_names ts cs (snd (exec ts c s))"

subsection \<open>Compilers\<close>

text \<open>
  The compiler is not part of the repository, and the properties below of \<open>updateFile\<close>,
  of the file versions and of the root file names hold for every \<open>ts\<close>. Only the
  property of \<open>createFile\<close> is stated for a compiler that keeps names and texts as they
  are given: a source file made or updated from a name and a text has that name and
  that text, and a source file of the program has the name it is asked by and the text
  of the host's snapshot. The TypeScript compiler is such a compiler on the absolute
  names in normal form only: \<^verbatim>\<open>createSourceFile\<close> normalizes the name it is given, and
  the program resolves the name it is asked by against the current directory.
\<close>

definition engine_contract :: "'c TS \<Rightarrow> bool" where
  "engine_contract ts \<longleftrightarrow>
     (\<forall>fname content v.
        fileName (createSourceFile ts fname content v) = fname \<and>
        text' (createSourceFile ts fname content v) = content) \<and>
     (\<forall>sf newText r.
        fileName (updateSourceFile ts sf newText r) = fileName sf \<and>
        text' (updateSourceFile ts sf newText r) = newText) \<and>
     (\<forall>h fname sf.
        getProgramSourceFile ts h fname = Some sf \<longrightarrow>
        fileName sf = fname \<and> getScriptSnapshot h fname = Some (text' sf))"

text \<open>
  The least compiler that keeps names, for concrete runs on absolute names in normal
  form: parsing keeps the text, the program is made of the root files the host has a
  snapshot for (the texts are not read, so no file is found through an import), the
  options have no diagnostics (as those of an environment made without root files), and
  \<open>ScriptTarget\<close> is the enumeration of TypeScript 3.8, where \<^verbatim>\<open>Latest = ESNext = 99\<close> and
  the reverse mapping of 99 is the later name.
\<close>

definition ts_plain :: "'c TS" where
  "ts_plain =
     \<lparr>createSourceFile = (\<lambda>fname content v.
        \<lparr>fileName = fname, text' = content, languageVersion = v\<rparr>),
      updateSourceFile = (\<lambda>sf newText r. sf\<lparr>text' := newText\<rparr>),
      getProgramSourceFile = (\<lambda>h fname.
        if fname \<in> set (getScriptFileNames h)
        then (case getScriptSnapshot h fname of
                None \<Rightarrow> None
              | Some contents \<Rightarrow>
                  Some \<lparr>fileName = fname, text' = contents,
                        languageVersion = target_of (getCompilationSettings h)\<rparr>)
        else None),
      getCompilerOptionsDiagnostics = (\<lambda>h. []),
      formatDiagnostics = concat,
      ScriptTarget = map_of
        [(0, ''ES3''), (1, ''ES5''), (2, ''ES2015''), (3, ''ES2016''), (4, ''ES2017''),
         (5, ''ES2018''), (6, ''ES2019''), (7, ''ES2020''), (99, ''Latest''), (100, ''JSON'')]\<rparr>"

text \<open>
  The names of the TypeScript compiler, for the paths written with \<^verbatim>\<open>/\<close> that start
  with at most one \<^verbatim>\<open>/\<close>. \<open>normalizePath\<close> splits the path at the slashes, drops the
  empty components and the components \<^verbatim>\<open>.\<close>, lets a component \<^verbatim>\<open>..\<close> cancel the component
  before it (at the root it is dropped, at the start of a relative path it stays), and
  keeps a slash at the end; \<open>toPath\<close> resolves a relative path against the current
  directory \<^verbatim>\<open>/\<close> of the system first.
\<close>

fun split_slash :: "string \<Rightarrow> string list" where
  "split_slash [] = [[]]"
| "split_slash (c # cs) =
     (if c = CHR ''/'' then [] # split_slash cs
      else (case split_slash cs of [] \<Rightarrow> [[c]] | x # xs \<Rightarrow> (c # x) # xs))"

fun join_slash :: "string list \<Rightarrow> string" where
  "join_slash [] = []"
| "join_slash [x] = x"
| "join_slash (x # y # ys) = x @ ''/'' @ join_slash (y # ys)"

definition reducePathComponent :: "bool \<Rightarrow> string list \<Rightarrow> string \<Rightarrow> string list" where
  "reducePathComponent rooted reduced component =
     (if component = [] \<or> component = ''.'' then reduced
      else if component = ''..'' \<and> reduced \<noteq> [] \<and> last reduced \<noteq> ''..'' then butlast reduced
      else if component = ''..'' \<and> reduced = [] \<and> rooted then reduced
      else reduced @ [component])"

definition normalizePath :: "string \<Rightarrow> string" where
  "normalizePath path =
     (let rooted = prefix ''/'' path;
          components = split_slash (if rooted then tl path else path);
          reduced = foldl (reducePathComponent rooted) [] components;
          normalized = (if rooted then ''/'' else []) @ join_slash reduced
      in if normalized \<noteq> [] \<and> path \<noteq> [] \<and> last path = CHR ''/'' \<and>
            last normalized \<noteq> CHR ''/''
         then normalized @ ''/'' else normalized)"

definition toPath :: "string \<Rightarrow> string" where
  "toPath fname = normalizePath (if prefix ''/'' fname then fname else ''/'' @ fname)"

text \<open>
  A compiler with these names, for the concrete runs in which the names matter. Its
  \<^verbatim>\<open>createSourceFile\<close> normalizes the name; its program holds, under their normalized
  names, the root files the host has a snapshot for, and finds a file by the resolved
  path. As in \<open>ts_plain\<close>, parsing keeps the text, no file is found through an import,
  \<^verbatim>\<open>updateSourceFile\<close> returns (as the compiler's does for a span within the text), and
  the options have no diagnostics (as those of an environment made without root
  files).
\<close>

definition ts_resolving :: "'c TS" where
  "ts_resolving =
     \<lparr>createSourceFile = (\<lambda>fname content v.
        \<lparr>fileName = normalizePath fname, text' = content, languageVersion = v\<rparr>),
      updateSourceFile = (\<lambda>sf newText r. sf\<lparr>text' := newText\<rparr>),
      getProgramSourceFile = (\<lambda>h fname.
        case find (\<lambda>root. toPath root = toPath fname \<and> getScriptSnapshot h root \<noteq> None)
               (getScriptFileNames h) of
          None \<Rightarrow> None
        | Some root \<Rightarrow>
            (case getScriptSnapshot h root of
               None \<Rightarrow> None
             | Some contents \<Rightarrow>
                 Some \<lparr>fileName = normalizePath root, text' = contents,
                       languageVersion = target_of (getCompilationSettings h)\<rparr>)),
      getCompilerOptionsDiagnostics = (\<lambda>h. []),
      formatDiagnostics = concat,
      ScriptTarget = ScriptTarget (ts_plain :: 'c TS)\<rparr>"

text \<open>The environment \<^verbatim>\<open>createVirtualTypeScriptEnvironment(createSystem(m), rootFiles, ts)\<close>,
  made with no options of the caller's, when the options have no diagnostics.\<close>

definition env_of :: "'c Files \<Rightarrow> string list \<Rightarrow> 'c Env" where
  "env_of m rootFiles =
     createVirtualLanguageServiceHost (createSystem m) rootFiles
       (mergeCompilerOptions defaultCompilerOptions \<lparr>target = None\<rparr>)"

section \<open>Properties\<close>

subsection \<open>The system: directories and unsupported members\<close>

text \<open>
  C7. \<open>directoryExists\<close> holds of a string exactly when some stored path starts with
  it, \<open>readDirectory\<close> of the root \<^verbatim>\<open>/\<close> returns the stored paths and nothing else (as
  a set), and \<open>readDirectory\<close> of any other string returns the empty list.
\<close>

theorem directoryExists_readDirectory:
  "directoryExists fs D = (\<exists>p. fileExists fs p \<and> prefix D p) \<and>
   (if D = ''/'' then set (readDirectory fs D) = {p. fileExists fs p}
    else readDirectory fs D = [])"
  by (auto simp: directoryExists_def fileExists_def readDirectory_def list_ex_iff
      map_of_eq_None_iff weak_map_of_SomeI image_iff dest: map_of_SomeD)

text \<open>
  C9. Each of \<open>createDirectory\<close>, \<open>exit\<close>, \<open>write\<close> and \<open>getExecutingFilePath\<close> throws
  an \<open>Error\<close> whose message names the member, and the files of the system are as they were
  when it throws.
\<close>

theorem unsupported_members_throw:
  "createDirectory fs = (Inl (Error ''Method 'createDirectory' is not implemented.''), fs) \<and>
   exit fs = (Inl (Error ''Method 'exit' is not implemented.''), fs) \<and>
   write' fs = (Inl (Error ''Method 'write' is not implemented.''), fs) \<and>
   getExecutingFilePath fs =
     (Inl (Error ''Method 'getExecutingFilePath' is not implemented.''), fs)"
  by (simp add: createDirectory_def exit_def write'_def getExecutingFilePath_def
      notImplemented_def)

subsection \<open>The project version\<close>

text \<open>Two numbers with the same decimal digits are the same number.\<close>

lemma digit_inj: "a < 10 \<Longrightarrow> b < 10 \<Longrightarrow> digit a = digit b \<Longrightarrow> a = b"
proof -
  assume a: "a < 10" and b: "b < 10" and e: "digit a = digit b"
  have d: "distinct ''0123456789''" by simp
  have l: "length ''0123456789'' = 10" by simp
  from e have "''0123456789'' ! a = ''0123456789'' ! b" by (simp add: digit_def)
  with d a b l show "a = b" by (metis nth_eq_iff_index_eq)
qed

lemma toString_nonempty: "toString n \<noteq> []"
  by (subst toString.simps) simp

lemma toString_inj: "toString m = toString n \<Longrightarrow> m = n"
proof (induction m arbitrary: n rule: toString.induct)
  case (1 m)
  show ?case
  proof (cases "m < 10")
    case True
    then have lm: "toString m = [digit m]" by (subst toString.simps) simp
    show ?thesis
    proof (cases "n < 10")
      case n: True
      then have "toString n = [digit n]" by (subst toString.simps) simp
      with lm "1.prems" have "digit m = digit n" by simp
      with True n show ?thesis by (rule digit_inj)
    next
      case n: False
      then have "toString n = toString (n div 10) @ [digit (n mod 10)]"
        by (subst toString.simps) simp
      with lm "1.prems" have "toString (n div 10) = []" by simp
      with toString_nonempty show ?thesis by blast
    qed
  next
    case False
    then have lm: "toString m = toString (m div 10) @ [digit (m mod 10)]"
      by (subst toString.simps) simp
    show ?thesis
    proof (cases "n < 10")
      case n: True
      then have "toString n = [digit n]" by (subst toString.simps) simp
      with lm "1.prems" have "toString (m div 10) = []" by simp
      with toString_nonempty show ?thesis by blast
    next
      case n: False
      then have "toString n = toString (n div 10) @ [digit (n mod 10)]"
        by (subst toString.simps) simp
      with lm "1.prems" have e: "toString (m div 10) = toString (n div 10)"
        and d: "digit (m mod 10) = digit (n mod 10)" by simp_all
      from "1.IH"[OF False e] have q: "m div 10 = n div 10" .
      have "m mod 10 = n mod 10" by (rule digit_inj[OF _ _ d]) simp_all
      with q show ?thesis by (metis div_mult_mod_eq)
    qed
  qed
qed

lemma projectVersion_lsHost_updateFile [simp]:
  "projectVersion (lsHost_updateFile sf s) = projectVersion s + 1"
  by (simp add: lsHost_updateFile_def vHost_updateFile_def Let_def)

lemma projectVersion_createFile [simp]:
  "projectVersion (createFile ts f c s) = projectVersion s + 1"
  by (simp add: createFile_def)

lemma projectVersion_updateFile:
  "projectVersion (snd (updateFile ts f c sp s)) =
     (if isl (fst (updateFile ts f c sp s)) then projectVersion s else projectVersion s + 1)"
  by (simp add: updateFile_def Let_def split: option.splits)

lemma projectVersion_exec:
  "projectVersion (snd (exec ts c s)) =
     (if isl (fst (exec ts c s)) then projectVersion s else projectVersion s + 1)"
  by (cases c) (simp_all add: projectVersion_updateFile)

lemma observed_upt:
  "observed ts cs s =
     map toString [Suc (projectVersion s) ..< Suc (projectVersion s) + length (observed ts cs s)]"
proof (induction cs arbitrary: s)
  case Nil
  show ?case by simp
next
  case (Cons c cs)
  obtain r s' where e: "exec ts c s = (r, s')" by (cases "exec ts c s")
  from projectVersion_exec[of ts c s] e
  have pv: "projectVersion s' = (if isl r then projectVersion s else projectVersion s + 1)"
    by simp
  show ?case
  proof (cases r)
    case (Inl err)
    with e pv Cons.IH[of s'] show ?thesis by simp
  next
    case (Inr u)
    with pv have p: "projectVersion s' = Suc (projectVersion s)" by simp
    define n where "n = length (observed ts cs s')"
    from e Inr have o: "observed ts (c # cs) s = toString (projectVersion s') # observed ts cs s'"
      by (simp add: languageServiceHost_def)
    from Cons.IH[of s'] p n_def
    have ih: "observed ts cs s' =
        map toString [Suc (Suc (projectVersion s)) ..< Suc (Suc (projectVersion s)) + n]"
      by simp
    from o p have "observed ts (c # cs) s = toString (Suc (projectVersion s)) # observed ts cs s'"
      by simp
    also have "\<dots> = map toString [Suc (projectVersion s) ..< Suc (projectVersion s) + Suc n]"
    proof -
      have "[Suc (projectVersion s) ..< Suc (projectVersion s) + Suc n] =
          Suc (projectVersion s) # [Suc (Suc (projectVersion s)) ..< Suc (projectVersion s) + Suc n]"
        by (rule upt_conv_Cons) simp
      with ih show ?thesis by simp
    qed
    finally have r: "observed ts (c # cs) s =
        map toString [Suc (projectVersion s) ..< Suc (projectVersion s) + Suc n]" .
    from o n_def have "length (observed ts (c # cs) s) = Suc n" by simp
    with r show ?thesis by simp
  qed
qed

lemma distinct_tokens: "distinct (map toString [a..<b])"
  by (simp add: distinct_map inj_on_def) (blast dest: toString_inj)

lemma run_projectVersion:
  "projectVersion (run ts cs s) = projectVersion s + length (observed ts cs s)"
proof (induction cs arbitrary: s)
  case Nil
  show ?case by simp
next
  case (Cons c cs)
  obtain r s' where e: "exec ts c s = (r, s')" by (cases "exec ts c s")
  from projectVersion_exec[of ts c s] e
  have pv: "projectVersion s' = (if isl r then projectVersion s else projectVersion s + 1)"
    by simp
  from e pv Cons.IH[of s'] show ?case by (cases r) simp_all
qed

text \<open>
  C3. The project version of a new host is the token \<^verbatim>\<open>0\<close>. Every call of the host's
  \<open>updateFile\<close>, every \<open>createFile\<close> and every \<open>updateFile\<close> of the environment that
  returns adds exactly one to it, and an \<open>updateFile\<close> that throws leaves it. So the
  tokens read after the calls of any sequence that returned are the decimal numerals
  of the successive numbers after the starting one: they are in increasing order and
  pairwise distinct, and the counter ends at its start plus their number.
\<close>

theorem projectVersion_counts_updates:
  "getProjectVersion
     (languageServiceHost (createVirtualLanguageServiceHost sys rootFiles options)) = ''0'' \<and>
   projectVersion (lsHost_updateFile sf s) = projectVersion s + 1 \<and>
   projectVersion (createFile ts f c s) = projectVersion s + 1 \<and>
   projectVersion (snd (updateFile ts f c sp s)) =
     (if isl (fst (updateFile ts f c sp s)) then projectVersion s else projectVersion s + 1) \<and>
   observed ts cs s =
     map toString
       [Suc (projectVersion s) ..< Suc (projectVersion s) + length (observed ts cs s)] \<and>
   distinct (observed ts cs s) \<and>
   projectVersion (run ts cs s) = projectVersion s + length (observed ts cs s)"
proof -
  have b: "getProjectVersion
      (languageServiceHost (createVirtualLanguageServiceHost sys rootFiles options)) = ''0''"
    by (simp add: languageServiceHost_def createVirtualLanguageServiceHost_def
        toString.simps digit_def)
  have d: "distinct (observed ts cs s)"
    by (subst observed_upt) (rule distinct_tokens)
  from b d observed_upt[of ts cs s] run_projectVersion[of ts cs s]
    projectVersion_updateFile[of ts f c sp s]
  show ?thesis by simp
qed

subsection \<open>knownLibFilesForTarget\<close>

lemma slice_0_take: "0 \<le> e \<Longrightarrow> slice xs 0 e = take (nat e) xs"
  by (simp add: slice_def Let_def min_def)

lemma slice_from_drop: "0 \<le> b \<Longrightarrow> slice_from xs b = drop (nat b) xs"
  by (auto simp: slice_from_def slice_def Let_def min_def)

lemma indexOf_from_nth:
  "distinct xs \<Longrightarrow> i < length xs \<Longrightarrow> indexOf_from k xs (xs ! i) = k + int i"
proof (induction xs arbitrary: i k)
  case Nil
  then show ?case by simp
next
  case (Cons y ys)
  show ?case
  proof (cases i)
    case 0
    then show ?thesis by simp
  next
    case (Suc j)
    with Cons.prems have j: "j < length ys" and d: "distinct ys" and n: "y \<noteq> ys ! j"
      by auto
    from Cons.IH[OF d j, of "k + 1"] n Suc show ?thesis by simp
  qed
qed

text \<open>The last element of the matches is the match with the greatest index.\<close>

lemma pop_filter_last_match:
  assumes i: "i < length xs" and p: "P (xs ! i)"
    and l: "\<forall>j. i < j \<and> j < length xs \<longrightarrow> \<not> P (xs ! j)"
  shows "pop (filter P xs) = Some (xs ! i)"
proof -
  have "\<forall>x \<in> set (drop (Suc i) xs). \<not> P x"
  proof
    fix x assume "x \<in> set (drop (Suc i) xs)"
    then obtain k where k: "k < length (drop (Suc i) xs)" and x: "x = drop (Suc i) xs ! k"
      by (auto simp: in_set_conv_nth)
    from k have "Suc i + k < length xs" by simp
    with l have "\<not> P (xs ! (Suc i + k))" by simp
    with x k show "\<not> P x" by simp
  qed
  then have e: "filter P (drop (Suc i) xs) = []" by (simp add: filter_empty_conv)
  from i have "xs = take i xs @ xs ! i # drop (Suc i) xs" by (rule id_take_nth_drop)
  then have "filter P xs = filter P (take i xs @ xs ! i # drop (Suc i) xs)" by simp
  also from p e have "\<dots> = filter P (take i xs) @ [xs ! i]" by simp
  finally show ?thesis by (simp add: pop_def)
qed

lemma knownLibFilesIn_last_match:
  assumes "distinct fs" and "i < length fs"
    and "prefix (''lib.'' @ toLowerCase name) (fs ! i)"
    and "\<forall>j. i < j \<and> j < length fs \<longrightarrow> \<not> prefix (''lib.'' @ toLowerCase name) (fs ! j)"
  shows "knownLibFilesIn fs name = take (Suc i) fs"
proof -
  from pop_filter_last_match[of i fs "\<lambda>f. prefix (''lib.'' @ toLowerCase name) f"] assms
  have m: "pop (filter (\<lambda>f. prefix (''lib.'' @ toLowerCase name) f) fs) = Some (fs ! i)"
    by simp
  from assms(1,2) have "indexOf fs (Some (fs ! i)) = int i"
    by (simp add: indexOf_def indexOf_from_nth)
  with m show ?thesis
    by (simp add: knownLibFilesIn_def Let_def slice_0_take nat_add_distrib)
qed

lemma distinct_lib_files: "distinct lib_files"
  by (simp add: lib_files_def)

lemma length_lib_files: "length lib_files = 49"
  by (simp add: lib_files_def)

lemma all_after:
  assumes a: "list_all Q (drop (Suc i) xs)"
  shows "\<forall>j. i < j \<and> j < length xs \<longrightarrow> Q (xs ! j)"
proof (intro allI impI)
  fix j assume j: "i < j \<and> j < length xs"
  then have "j - Suc i < length (drop (Suc i) xs)" by auto
  with a have "Q (drop (Suc i) xs ! (j - Suc i))" by (simp add: list_all_length)
  with j show "Q (xs ! j)" by simp
qed

lemma toLowerCase_ES2015: "toLowerCase ''ES2015'' = ''es2015''"
  by (simp add: toLowerCase_def toLowerCase_char_def)

text \<open>Among the matches of a list that has one, one has the greatest index, and only
  one.\<close>

lemma last_match_exists:
  assumes "\<exists>x \<in> set xs. P x"
  shows "\<exists>i. i < length xs \<and> P (xs ! i) \<and> (\<forall>j. i < j \<and> j < length xs \<longrightarrow> \<not> P (xs ! j))"
  using assms
proof (induction xs rule: rev_induct)
  case Nil
  then show ?case by simp
next
  case (snoc x xs)
  show ?case
  proof (cases "P x")
    case True
    then have "length xs < length (xs @ [x]) \<and> P ((xs @ [x]) ! length xs) \<and>
        (\<forall>j. length xs < j \<and> j < length (xs @ [x]) \<longrightarrow> \<not> P ((xs @ [x]) ! j))"
      by auto
    then show ?thesis by blast
  next
    case False
    with snoc.prems have "\<exists>x \<in> set xs. P x" by auto
    from snoc.IH[OF this] obtain i where i: "i < length xs" "P (xs ! i)"
      "\<forall>j. i < j \<and> j < length xs \<longrightarrow> \<not> P (xs ! j)" by blast
    have "\<forall>j. i < j \<and> j < length (xs @ [x]) \<longrightarrow> \<not> P ((xs @ [x]) ! j)"
    proof (intro allI impI)
      fix j assume j: "i < j \<and> j < length (xs @ [x])"
      show "\<not> P ((xs @ [x]) ! j)"
      proof (cases "j < length xs")
        case True
        with i(3) j show ?thesis by (simp add: nth_append)
      next
        case False
        with j have "j = length xs" by simp
        with \<open>\<not> P x\<close> show ?thesis by simp
      qed
    qed
    with i(1,2) have "i < length (xs @ [x]) \<and> P ((xs @ [x]) ! i) \<and>
        (\<forall>j. i < j \<and> j < length (xs @ [x]) \<longrightarrow> \<not> P ((xs @ [x]) ! j))"
      by (simp add: nth_append)
    then show ?thesis by blast
  qed
qed

lemma last_match_unique:
  assumes "i < length xs" "P (xs ! i)" "\<forall>j. i < j \<and> j < length xs \<longrightarrow> \<not> P (xs ! j)"
    and "k < length xs" "P (xs ! k)" "\<forall>j. k < j \<and> j < length xs \<longrightarrow> \<not> P (xs ! j)"
  shows "i = k"
  using assms by (metis linorder_neqE_nat)

text \<open>
  C8. For a target whose name the enumeration gives, and of which some file of the table
  starts with \<^verbatim>\<open>lib.\<close> followed by that name in lower case, \<open>knownLibFilesForTarget\<close>
  returns the table up to and including the last such file: there is a greatest index
  \<open>i\<close> of a file that starts so, and the result is the files \<open>0\<close> to \<open>i\<close> in the
  order of the table.
\<close>

theorem knownLibFilesForTarget_last_match:
  assumes "ScriptTarget ts tgt = Some name"
    and "\<exists>f \<in> set lib_files. prefix (''lib.'' @ toLowerCase name) f"
  shows "\<exists>i. i < length lib_files \<and> prefix (''lib.'' @ toLowerCase name) (lib_files ! i) \<and>
           (\<forall>j. i < j \<and> j < length lib_files \<longrightarrow>
              \<not> prefix (''lib.'' @ toLowerCase name) (lib_files ! j)) \<and>
           knownLibFilesForTarget tgt ts = Inr (take (Suc i) lib_files)"
proof -
  from last_match_exists[OF assms(2)] obtain i where
    i: "i < length lib_files" "prefix (''lib.'' @ toLowerCase name) (lib_files ! i)"
      "\<forall>j. i < j \<and> j < length lib_files \<longrightarrow>
         \<not> prefix (''lib.'' @ toLowerCase name) (lib_files ! j)"
    by blast
  from knownLibFilesIn_last_match[OF distinct_lib_files i] assms(1)
  have "knownLibFilesForTarget tgt ts = Inr (take (Suc i) lib_files)"
    by (simp add: knownLibFilesForTarget_def)
  with i show ?thesis by blast
qed

text \<open>For the target ES2015 the last match is \<^verbatim>\<open>lib.es2015.symbol.wellknown.d.ts\<close>, at
  index 14.\<close>

theorem knownLibFilesForTarget_last_match_witness:
  "ScriptTarget (ts_plain :: char TS) 2 = Some ''ES2015'' \<and>
   prefix (''lib.'' @ toLowerCase ''ES2015'') (lib_files ! 14) \<and>
   knownLibFilesForTarget 2 (ts_plain :: char TS) =
     Inr [''lib.d.ts'', ''lib.dom.d.ts'', ''lib.dom.iterable.d.ts'', ''lib.es5.d.ts'',
          ''lib.es6.d.ts'', ''lib.es2015.collection.d.ts'', ''lib.es2015.core.d.ts'',
          ''lib.es2015.d.ts'', ''lib.es2015.generator.d.ts'', ''lib.es2015.iterable.d.ts'',
          ''lib.es2015.promise.d.ts'', ''lib.es2015.proxy.d.ts'', ''lib.es2015.reflect.d.ts'',
          ''lib.es2015.symbol.d.ts'', ''lib.es2015.symbol.wellknown.d.ts'']"
proof -
  have t: "ScriptTarget (ts_plain :: char TS) 2 = Some ''ES2015''"
    by (simp add: ts_plain_def)
  have i: "14 < length lib_files" by (simp add: length_lib_files)
  have p: "prefix (''lib.'' @ toLowerCase ''ES2015'') (lib_files ! 14)"
    by (simp add: toLowerCase_ES2015 lib_files_def)
  have "list_all (\<lambda>f. \<not> prefix (''lib.'' @ toLowerCase ''ES2015'') f)
      (drop (Suc 14) lib_files)"
    by (simp add: toLowerCase_ES2015 lib_files_def)
  then have l: "\<forall>j. 14 < j \<and> j < length lib_files \<longrightarrow>
      \<not> prefix (''lib.'' @ toLowerCase ''ES2015'') (lib_files ! j)"
    by (rule all_after[of "\<lambda>f. \<not> prefix (''lib.'' @ toLowerCase ''ES2015'') f" 14 lib_files])
  from i p have e: "\<exists>f \<in> set lib_files. prefix (''lib.'' @ toLowerCase ''ES2015'') f"
    using nth_mem by blast
  from knownLibFilesForTarget_last_match[OF t e] obtain k where k: "k < length lib_files"
      "prefix (''lib.'' @ toLowerCase ''ES2015'') (lib_files ! k)"
      "\<forall>j. k < j \<and> j < length lib_files \<longrightarrow>
         \<not> prefix (''lib.'' @ toLowerCase ''ES2015'') (lib_files ! j)"
      and r: "knownLibFilesForTarget 2 (ts_plain :: char TS) = Inr (take (Suc k) lib_files)"
    by blast
  from last_match_unique[OF k i p l] have "k = 14" .
  with r t p show ?thesis by (simp add: lib_files_def)
qed

subsection \<open>The state after an update\<close>

lemma readFile_writeFile [simp]:
  "readFile (writeFile fs f c) g = (if g = f then Some c else readFile fs g)"
  by (simp add: readFile_def writeFile_def update_conv')

lemma files_lsHost_updateFile [simp]:
  "files (lsHost_updateFile sf s) = writeFile (files s) (fileName sf) (text' sf)"
  by (simp add: lsHost_updateFile_def vHost_updateFile_def Let_def)

lemma fileNames_lsHost_updateFile [simp]:
  "fileNames (lsHost_updateFile sf s) =
     (if fileName sf \<in> set (fileNames s) then fileNames s else fileNames s @ [fileName sf])"
  by (simp add: lsHost_updateFile_def vHost_updateFile_def Let_def)

lemma fileVersions_lsHost_updateFile [simp]:
  "fileVersions (lsHost_updateFile sf s) =
     (fileVersions s)(fileName sf \<mapsto> toString (projectVersion s + 1))"
  by (simp add: lsHost_updateFile_def vHost_updateFile_def Let_def)

lemma sourceFiles_lsHost_updateFile [simp]:
  "sourceFiles (lsHost_updateFile sf s) = (sourceFiles s)(fileName sf \<mapsto> sf)"
  by (simp add: lsHost_updateFile_def vHost_updateFile_def Let_def)

lemma compilerOptions_lsHost_updateFile [simp]:
  "compilerOptions (lsHost_updateFile sf s) = compilerOptions s"
  by (simp add: lsHost_updateFile_def vHost_updateFile_def Let_def)

lemma contract_create:
  "engine_contract ts \<Longrightarrow> fileName (createSourceFile ts f c v) = f"
  "engine_contract ts \<Longrightarrow> text' (createSourceFile ts f c v) = c"
  by (simp_all add: engine_contract_def)

lemma contract_program:
  assumes "engine_contract ts" and "getProgramSourceFile ts h f = Some sf"
  shows "fileName sf = f" and "getScriptSnapshot h f = Some (text' sf)"
  using assms unfolding engine_contract_def by blast+

lemma ts_plain_contract: "engine_contract ts_plain"
  by (auto simp: engine_contract_def ts_plain_def split: if_splits option.splits)

lemma env_of_created:
  "createVirtualTypeScriptEnvironment (createSystem m) rootFiles ts_plain \<lparr>target = None\<rparr> =
     Inr (env_of m rootFiles)"
  by (simp add: createVirtualTypeScriptEnvironment_def env_of_def ts_plain_def Let_def)

lemma snapshot_createFile:
  assumes "engine_contract ts"
  shows "getScriptSnapshot (languageServiceHost (createFile ts P C s)) P =
           (if C = [] then None else Some C)"
  using assms by (simp add: createFile_def contract_create languageServiceHost_def)

lemmas eval_defs = env_of_def createVirtualLanguageServiceHost_def createSystem_def
  languageServiceHost_def ts_plain_def updateFile_def createFile_def Let_def
  mergeCompilerOptions_def defaultCompilerOptions_def slice_def slice_from_def
  readFile_def writeFile_def lsHost_updateFile_def vHost_updateFile_def

subsection \<open>createFile\<close>

text \<open>
  C2. After \<open>createFile\<close> of a path with a content, \<open>readFile\<close> of the path returns the
  content, and \<open>getScriptSnapshot\<close> of the path returns the content when it is not
  empty; for the empty content it returns nothing, the condition \<^verbatim>\<open>if (contents)\<close> being
  false of the empty string.
\<close>

theorem createFile_readFile_snapshot:
  assumes "engine_contract ts"
  shows "readFile (files (createFile ts P C s)) P = Some C \<and>
         getScriptSnapshot (languageServiceHost (createFile ts P C s)) P =
           (if C = [] then None else Some C)"
  using assms snapshot_createFile[OF assms, of P C s]
  by (simp add: createFile_def contract_create)

text \<open>The file created empty: it is stored, and it has no snapshot.\<close>

theorem createFile_empty_content_witness:
  "readFile (files (createFile ts_plain ''/a.ts'' [] (env_of [] []))) ''/a.ts'' =
     Some ([] :: string) \<and>
   getScriptSnapshot
     (languageServiceHost (createFile ts_plain ''/a.ts'' ([] :: string) (env_of [] [])))
     ''/a.ts'' = None"
  using createFile_readFile_snapshot[OF ts_plain_contract, of "''/a.ts''" "[] :: string"
      "env_of [] []"]
  by simp

text \<open>A file created empty cannot be patched afterwards: the program has no source file
  for a path without a snapshot.\<close>

lemma updateFile_after_empty_createFile:
  assumes "engine_contract ts"
  shows "updateFile ts P F S (createFile ts P [] s) = (Inl TypeError, createFile ts P [] s)"
proof (cases "getProgramSourceFile ts (languageServiceHost (createFile ts P [] s)) P")
  case None
  then show ?thesis by (simp add: updateFile_def)
next
  case (Some sf)
  from contract_program(2)[OF assms Some] snapshot_createFile[OF assms, of P "[]" s]
  show ?thesis by simp
qed

subsection \<open>updateFile\<close>

text \<open>A call passes to the host the source file of \<open>routed\<close>, or throws and leaves
  the state.\<close>

lemma exec_routed:
  "exec ts c s =
     (case routed ts c s of None \<Rightarrow> (Inl TypeError, s) | Some sf \<Rightarrow> (Inr (), lsHost_updateFile sf s))"
  by (cases c) (simp_all add: createFile_def updateFile_def Let_def split: option.splits)

lemma splice:
  assumes "0 \<le> a" and "a \<le> a + l" and "a + l \<le> int (length t)"
  shows "slice t 0 a @ c @ slice_from t (a + l) = take (nat a) t @ c @ drop (nat (a + l)) t"
  using assms by (simp add: slice_0_take slice_from_drop)

lemmas resolving_defs = eval_defs ts_resolving_def normalizePath_def toPath_def
  reducePathComponent_def target_of_def

lemma env_of_created_resolving:
  "createVirtualTypeScriptEnvironment (createSystem m) rootFiles ts_resolving
     \<lparr>target = None\<rparr> = Inr (env_of m rootFiles)"
  by (simp add: createVirtualTypeScriptEnvironment_def env_of_def ts_resolving_def Let_def)

text \<open>
  C1, amended. Let the program of the language service have a source file for the path
  \<open>P\<close>, with text \<open>T\<close>, and let the span \<open>S\<close> lie within it:
  \<open>0 \<le> start S \<le> start S + length' S \<le> length T\<close>. Let \<open>N\<close> be \<open>T\<close> with the span
  replaced by the fragment \<open>F\<close>, and \<open>new\<close> the source file that \<^verbatim>\<open>ts.updateSourceFile\<close>
  makes of that source file and \<open>N\<close>. Then \<open>updateFile P F S\<close> returns, having passed
  \<open>new\<close> to the host, and the store holds the text of \<open>new\<close> under its file name. When
  \<open>new\<close> has the file name \<open>P\<close> and the text \<open>N\<close>, the content stored for \<open>P\<close> is \<open>N\<close>;
  and when the source file that \<^verbatim>\<open>ts.createSourceFile\<close> makes of \<open>P\<close> and \<open>N\<close> has that
  name and that text too, it is the content that \<open>createFile P N\<close> leaves for \<open>P\<close>.
\<close>

theorem updateFile_splices_prior_text:
  assumes "getProgramSourceFile ts (languageServiceHost s) P = Some prev"
    and "T = text' prev"
    and "0 \<le> start S" and "start S \<le> start S + length' S"
    and "start S + length' S \<le> int (length T)"
    and "N = take (nat (start S)) T @ F @ drop (nat (start S + length' S)) T"
    and "new = updateSourceFile ts prev N \<lparr>span = S, newLength = length F\<rparr>"
    and "made = createSourceFile ts P N (target_of (compilerOptions s))"
  shows "updateFile ts P F S s = (Inr (), lsHost_updateFile new s) \<and>
         readFile (files (snd (updateFile ts P F S s))) (fileName new) = Some (text' new) \<and>
         (fileName new = P \<and> text' new = N \<longrightarrow>
            readFile (files (snd (updateFile ts P F S s))) P = Some N) \<and>
         (fileName new = P \<and> text' new = N \<and> fileName made = P \<and> text' made = N \<longrightarrow>
            readFile (files (snd (updateFile ts P F S s))) P =
            readFile (files (createFile ts P N s)) P)"
proof -
  from assms(2-6)
  have sp: "slice (text' prev) 0 (start S) @ F @ slice_from (text' prev) (start S + length' S) = N"
    by (simp add: splice)
  from assms(1,7) sp have u: "updateFile ts P F S s = (Inr (), lsHost_updateFile new s)"
    by (simp add: updateFile_def Let_def)
  from assms(8) have c: "createFile ts P N s = lsHost_updateFile made s"
    by (simp add: createFile_def)
  from u c show ?thesis by simp
qed

text \<open>After \<^verbatim>\<open>createFile("/a.ts", "let x = 1;")\<close> on an environment made of nothing, the
  call \<^verbatim>\<open>updateFile("/a.ts", "2", {start: 8, length: 1})\<close> leaves \<^verbatim>\<open>let x = 2;\<close>, as
  \<^verbatim>\<open>createFile("/a.ts", "let x = 2;")\<close> does.\<close>

theorem updateFile_splices_prior_text_witness:
  "getProgramSourceFile ts_resolving
     (languageServiceHost (createFile ts_resolving ''/a.ts'' ''let x = 1;'' (env_of [] [])))
     ''/a.ts'' =
     Some \<lparr>fileName = ''/a.ts'', text' = ''let x = 1;'', languageVersion = Some ES2015\<rparr> \<and>
   updateFile ts_resolving ''/a.ts'' ''2'' \<lparr>start = 8, length' = 1\<rparr>
       (createFile ts_resolving ''/a.ts'' ''let x = 1;'' (env_of [] [])) =
     (Inr (), lsHost_updateFile
        \<lparr>fileName = ''/a.ts'', text' = ''let x = 2;'', languageVersion = Some ES2015\<rparr>
        (createFile ts_resolving ''/a.ts'' ''let x = 1;'' (env_of [] []))) \<and>
   readFile (files (snd (updateFile ts_resolving ''/a.ts'' ''2'' \<lparr>start = 8, length' = 1\<rparr>
     (createFile ts_resolving ''/a.ts'' ''let x = 1;'' (env_of [] []))))) ''/a.ts'' =
     Some ''let x = 2;'' \<and>
   readFile (files (snd (updateFile ts_resolving ''/a.ts'' ''2'' \<lparr>start = 8, length' = 1\<rparr>
     (createFile ts_resolving ''/a.ts'' ''let x = 1;'' (env_of [] []))))) ''/a.ts'' =
   readFile (files (createFile ts_resolving ''/a.ts'' ''let x = 2;''
     (createFile ts_resolving ''/a.ts'' ''let x = 1;'' (env_of [] [])))) ''/a.ts''"
proof -
  have p: "getProgramSourceFile ts_resolving
     (languageServiceHost (createFile ts_resolving ''/a.ts'' ''let x = 1;'' (env_of [] [])))
     ''/a.ts'' =
     Some \<lparr>fileName = ''/a.ts'', text' = ''let x = 1;'', languageVersion = Some ES2015\<rparr>"
    by (simp add: resolving_defs)
  let ?s = "createFile ts_resolving ''/a.ts'' ''let x = 1;'' (env_of [] [])"
  let ?new = "updateSourceFile ts_resolving
      \<lparr>fileName = ''/a.ts'', text' = ''let x = 1;'', languageVersion = Some ES2015\<rparr>
      ''let x = 2;'' \<lparr>span = \<lparr>start = 8, length' = 1\<rparr>, newLength = length ''2''\<rparr>"
  let ?made = "createSourceFile ts_resolving ''/a.ts'' ''let x = 2;''
      (target_of (compilerOptions ?s))"
  have t: "''let x = 1;'' =
      text' \<lparr>fileName = ''/a.ts'', text' = ''let x = 1;'', languageVersion = Some ES2015\<rparr>"
    by simp
  have b1: "0 \<le> start \<lparr>start = 8, length' = 1\<rparr>" by simp
  have b2: "start \<lparr>start = 8, length' = 1\<rparr> \<le>
      start \<lparr>start = 8, length' = 1\<rparr> + length' \<lparr>start = 8, length' = 1\<rparr>" by simp
  have b3: "start \<lparr>start = 8, length' = 1\<rparr> + length' \<lparr>start = 8, length' = 1\<rparr> \<le>
      int (length ''let x = 1;'')" by simp
  have n: "''let x = 2;'' =
      take (nat (start \<lparr>start = 8, length' = 1\<rparr>)) ''let x = 1;'' @ ''2'' @
      drop (nat (start \<lparr>start = 8, length' = 1\<rparr> + length' \<lparr>start = 8, length' = 1\<rparr>))
        ''let x = 1;''" by simp
  have new: "fileName ?new = ''/a.ts'' \<and> text' ?new = ''let x = 2;'' \<and>
      ?new = \<lparr>fileName = ''/a.ts'', text' = ''let x = 2;'', languageVersion = Some ES2015\<rparr>"
    by (simp add: ts_resolving_def)
  have made: "fileName ?made = ''/a.ts'' \<and> text' ?made = ''let x = 2;''"
    by (simp add: resolving_defs)
  from updateFile_splices_prior_text[OF p t b1 b2 b3 n refl refl] new made
  have "updateFile ts_resolving ''/a.ts'' ''2'' \<lparr>start = 8, length' = 1\<rparr> ?s =
      (Inr (), lsHost_updateFile
        \<lparr>fileName = ''/a.ts'', text' = ''let x = 2;'', languageVersion = Some ES2015\<rparr> ?s)"
    and "readFile (files (snd (updateFile ts_resolving ''/a.ts'' ''2''
      \<lparr>start = 8, length' = 1\<rparr> ?s))) ''/a.ts'' = Some ''let x = 2;''"
    and "readFile (files (snd (updateFile ts_resolving ''/a.ts'' ''2''
      \<lparr>start = 8, length' = 1\<rparr> ?s))) ''/a.ts'' =
      readFile (files (createFile ts_resolving ''/a.ts'' ''let x = 2;'' ?s)) ''/a.ts''"
    by auto
  with p show ?thesis by blast
qed

text \<open>
  Two paths with a stored content for which the claim as stated fails. The path
  \<^verbatim>\<open>/a.ts\<close> that is stored, but is no root file and was never created through the
  environment: \<open>updateFile\<close> throws and the stored content stays, where \<open>createFile\<close>
  with the spliced text stores that text. And the path \<^verbatim>\<open>a.ts\<close>, stored, beside the
  file \<^verbatim>\<open>/a.ts\<close> created through the environment: the program finds \<^verbatim>\<open>/a.ts\<close> for it,
  \<open>updateFile\<close> patches the content of \<^verbatim>\<open>/a.ts\<close> and the content stored for \<^verbatim>\<open>a.ts\<close>
  stays, where \<open>createFile\<close> with the spliced text stores that text for \<^verbatim>\<open>a.ts\<close>.
\<close>

theorem updateFile_stored_content_counterexample:
  "readFile (files (env_of [(''/a.ts'', ''let x = 1;'')] [])) ''/a.ts'' = Some ''let x = 1;'' \<and>
   updateFile ts_resolving ''/a.ts'' ''2'' \<lparr>start = 8, length' = 1\<rparr>
       (env_of [(''/a.ts'', ''let x = 1;'')] []) =
     (Inl TypeError, env_of [(''/a.ts'', ''let x = 1;'')] []) \<and>
   readFile (files (createFile ts_resolving ''/a.ts''
       (take 8 ''let x = 1;'' @ ''2'' @ drop (8 + 1) ''let x = 1;'')
       (env_of [(''/a.ts'', ''let x = 1;'')] []))) ''/a.ts'' = Some ''let x = 2;'' \<and>
   readFile (files (snd (updateFile ts_resolving ''/a.ts'' ''2'' \<lparr>start = 8, length' = 1\<rparr>
       (env_of [(''/a.ts'', ''let x = 1;'')] [])))) ''/a.ts'' \<noteq>
     readFile (files (createFile ts_resolving ''/a.ts''
       (take 8 ''let x = 1;'' @ ''2'' @ drop (8 + 1) ''let x = 1;'')
       (env_of [(''/a.ts'', ''let x = 1;'')] []))) ''/a.ts'' \<and>
   readFile (files (createFile ts_resolving ''/a.ts'' ''let x = 1;''
       (env_of [(''a.ts'', ''let y = 0;'')] []))) ''a.ts'' = Some ''let y = 0;'' \<and>
   fst (updateFile ts_resolving ''a.ts'' ''2'' \<lparr>start = 8, length' = 1\<rparr>
       (createFile ts_resolving ''/a.ts'' ''let x = 1;''
          (env_of [(''a.ts'', ''let y = 0;'')] []))) = Inr () \<and>
   readFile (files (snd (updateFile ts_resolving ''a.ts'' ''2'' \<lparr>start = 8, length' = 1\<rparr>
       (createFile ts_resolving ''/a.ts'' ''let x = 1;''
          (env_of [(''a.ts'', ''let y = 0;'')] []))))) ''a.ts'' = Some ''let y = 0;'' \<and>
   readFile (files (snd (updateFile ts_resolving ''a.ts'' ''2'' \<lparr>start = 8, length' = 1\<rparr>
       (createFile ts_resolving ''/a.ts'' ''let x = 1;''
          (env_of [(''a.ts'', ''let y = 0;'')] []))))) ''/a.ts'' = Some ''let x = 2;'' \<and>
   readFile (files (createFile ts_resolving ''a.ts''
       (take 8 ''let y = 0;'' @ ''2'' @ drop (8 + 1) ''let y = 0;'')
       (createFile ts_resolving ''/a.ts'' ''let x = 1;''
          (env_of [(''a.ts'', ''let y = 0;'')] [])))) ''a.ts'' = Some ''let y = 2;''"
  by (simp add: resolving_defs)

text \<open>
  C4, amended. \<open>updateFile\<close> of a path for which the program of the language service
  has no source file throws, and the state it throws in is the state it was called in:
  the files, the cache of source files, the project version, the file versions and the
  root file names are all as before.
\<close>

theorem updateFile_unknown_file_throws:
  assumes "getProgramSourceFile ts (languageServiceHost s) P = None"
  shows "updateFile ts P F S s = (Inl TypeError, s)"
  using assms by (simp add: updateFile_def)

text \<open>In an environment made of nothing the program has no file.\<close>

theorem updateFile_unknown_file_throws_witness:
  "getProgramSourceFile ts_resolving (languageServiceHost (env_of [] [])) ''/a.ts'' =
     (None :: char SourceFile option) \<and>
   updateFile ts_resolving ''/a.ts'' ''2'' \<lparr>start = 8, length' = 1\<rparr> (env_of [] []) =
     (Inl TypeError, env_of [] [])"
proof -
  have n: "getProgramSourceFile ts_resolving (languageServiceHost (env_of [] [])) ''/a.ts'' =
      (None :: char SourceFile option)"
    by (simp add: resolving_defs)
  from updateFile_unknown_file_throws[OF n] n show ?thesis by simp
qed

text \<open>The path \<^verbatim>\<open>a.ts\<close> was never created through the environment and nothing is stored
  for it; the program finds for it the file \<^verbatim>\<open>/a.ts\<close> that was, and \<open>updateFile\<close> returns,
  patches that file and moves the project version from 1 to 2.\<close>

theorem updateFile_resolved_path_counterexample:
  "readFile (files (createFile ts_resolving ''/a.ts'' ''let x = 1;'' (env_of [] []))) ''a.ts'' = None \<and>
   projectVersion (createFile ts_resolving ''/a.ts'' ''let x = 1;'' (env_of [] [])) = 1 \<and>
   fst (updateFile ts_resolving ''a.ts'' ''2'' \<lparr>start = 8, length' = 1\<rparr>
     (createFile ts_resolving ''/a.ts'' ''let x = 1;'' (env_of [] []))) = Inr () \<and>
   readFile (files (snd (updateFile ts_resolving ''a.ts'' ''2'' \<lparr>start = 8, length' = 1\<rparr>
     (createFile ts_resolving ''/a.ts'' ''let x = 1;'' (env_of [] []))))) ''/a.ts'' =
     Some ''let x = 2;'' \<and>
   projectVersion (snd (updateFile ts_resolving ''a.ts'' ''2'' \<lparr>start = 8, length' = 1\<rparr>
     (createFile ts_resolving ''/a.ts'' ''let x = 1;'' (env_of [] [])))) = 2"
  by (simp add: resolving_defs)

subsection \<open>The version of a file that is never updated\<close>

lemma fileVersions_exec:
  "fileVersions (snd (exec ts c s)) P =
     (case routed ts c s of
        None \<Rightarrow> fileVersions s P
      | Some sf \<Rightarrow> if P = fileName sf then Some (toString (projectVersion s + 1))
                   else fileVersions s P)"
  by (simp add: exec_routed split: option.splits)

lemma run_fileVersions:
  "P \<notin> set (routed_names ts cs s) \<Longrightarrow> fileVersions (run ts cs s) P = fileVersions s P"
proof (induction cs arbitrary: s)
  case Nil
  show ?case by simp
next
  case (Cons c cs)
  from Cons.prems have a: "P \<notin> set (routed_names ts cs (snd (exec ts c s)))"
    and b: "fileVersions (snd (exec ts c s)) P = fileVersions s P"
    by (auto simp: fileVersions_exec split: option.splits)
  from Cons.IH[OF a] b show ?case by simp
qed

text \<open>
  C5, amended. On a host made with any files and root files, after any sequence of
  \<open>createFile\<close> and \<open>updateFile\<close> calls, \<open>getScriptVersion\<close> of a path \<open>P\<close> is the token
  \<^verbatim>\<open>0\<close> when \<open>P\<close> is the file name of none of the source files that the calls passed to
  the host; the empty sequence is the host as it was made.
\<close>

theorem unrouted_path_baseline_version:
  assumes "P \<notin> set (routed_names ts cs (createVirtualLanguageServiceHost sys rootFiles options))"
  shows "getScriptVersion (languageServiceHost
           (run ts cs (createVirtualLanguageServiceHost sys rootFiles options))) P = ''0''"
proof -
  have "fileVersions (run ts cs (createVirtualLanguageServiceHost sys rootFiles options)) P =
      fileVersions (createVirtualLanguageServiceHost sys rootFiles options) P"
    by (rule run_fileVersions[OF assms])
  then show ?thesis
    by (simp add: languageServiceHost_def createVirtualLanguageServiceHost_def)
qed

text \<open>A \<open>createFile\<close> of \<^verbatim>\<open>/b.ts\<close> and an \<open>updateFile\<close> of \<^verbatim>\<open>b.ts\<close> both pass a source file
  named \<^verbatim>\<open>/b.ts\<close>: they leave the version of the stored file \<^verbatim>\<open>/a.ts\<close> at \<^verbatim>\<open>0\<close> and bring
  the version of \<^verbatim>\<open>/b.ts\<close> to \<^verbatim>\<open>2\<close>.\<close>

theorem unrouted_path_baseline_version_witness:
  "routed_names ts_resolving
     [CreateFile ''/b.ts'' ''let y = 1;'', UpdateFile ''b.ts'' ''2'' \<lparr>start = 8, length' = 1\<rparr>]
     (createVirtualLanguageServiceHost [(''/a.ts'', ''let x = 1;'')] []
        (mergeCompilerOptions defaultCompilerOptions \<lparr>target = None\<rparr>)) = [''/b.ts'', ''/b.ts''] \<and>
   getScriptVersion (languageServiceHost
     (run ts_resolving
        [CreateFile ''/b.ts'' ''let y = 1;'', UpdateFile ''b.ts'' ''2'' \<lparr>start = 8, length' = 1\<rparr>]
        (createVirtualLanguageServiceHost [(''/a.ts'', ''let x = 1;'')] []
           (mergeCompilerOptions defaultCompilerOptions \<lparr>target = None\<rparr>)))) ''/a.ts'' = ''0'' \<and>
   getScriptVersion (languageServiceHost
     (run ts_resolving
        [CreateFile ''/b.ts'' ''let y = 1;'', UpdateFile ''b.ts'' ''2'' \<lparr>start = 8, length' = 1\<rparr>]
        (createVirtualLanguageServiceHost [(''/a.ts'', ''let x = 1;'')] []
           (mergeCompilerOptions defaultCompilerOptions \<lparr>target = None\<rparr>)))) ''/b.ts'' = ''2''"
proof -
  have r: "routed_names ts_resolving
     [CreateFile ''/b.ts'' ''let y = 1;'', UpdateFile ''b.ts'' ''2'' \<lparr>start = 8, length' = 1\<rparr>]
     (createVirtualLanguageServiceHost [(''/a.ts'', ''let x = 1;'')] []
        (mergeCompilerOptions defaultCompilerOptions \<lparr>target = None\<rparr>)) = [''/b.ts'', ''/b.ts'']"
    by (simp add: resolving_defs)
  then have "''/a.ts'' \<notin> set (routed_names ts_resolving
     [CreateFile ''/b.ts'' ''let y = 1;'', UpdateFile ''b.ts'' ''2'' \<lparr>start = 8, length' = 1\<rparr>]
     (createVirtualLanguageServiceHost [(''/a.ts'', ''let x = 1;'')] []
        (mergeCompilerOptions defaultCompilerOptions \<lparr>target = None\<rparr>)))"
    by simp
  from unrouted_path_baseline_version[OF this] r show ?thesis
    by (simp add: resolving_defs toString.simps digit_def)
qed

text \<open>The path \<^verbatim>\<open>/a.ts\<close> is passed to no call; the one call, \<open>createFile\<close> of the other
  path \<^verbatim>\<open>/x/../a.ts\<close>, makes a source file named \<^verbatim>\<open>/a.ts\<close> and brings the version of
  \<^verbatim>\<open>/a.ts\<close> to \<^verbatim>\<open>1\<close>.\<close>

theorem normalized_path_version_counterexample:
  "call_path (CreateFile ''/x/../a.ts'' ''let x = 1;'') \<noteq> ''/a.ts'' \<and>
   getScriptVersion (languageServiceHost (env_of ([] :: char Files) [])) ''/a.ts'' = ''0'' \<and>
   getScriptVersion (languageServiceHost
     (run ts_resolving [CreateFile ''/x/../a.ts'' ''let x = 1;''] (env_of [] []))) ''/a.ts'' = ''1''"
  by (simp add: resolving_defs toString.simps digit_def)

subsection \<open>The root file names\<close>

lemma exec_fileNames:
  "fileNames (snd (exec ts c s)) = fileNames s \<or>
   (\<exists>f. f \<notin> set (fileNames s) \<and> fileNames (snd (exec ts c s)) = fileNames s @ [f])"
  by (simp add: exec_routed split: option.splits)

lemma run_fileNames:
  "prefix (fileNames s) (fileNames (run ts cs s)) \<and>
   (distinct (fileNames s) \<longrightarrow> distinct (fileNames (run ts cs s)))"
proof (induction cs arbitrary: s)
  case Nil
  show ?case by simp
next
  case (Cons c cs)
  from exec_fileNames[of ts c s]
  have "prefix (fileNames s) (fileNames (snd (exec ts c s))) \<and>
      (distinct (fileNames s) \<longrightarrow> distinct (fileNames (snd (exec ts c s))))"
    by auto
  with Cons.IH[of "snd (exec ts c s)"] show ?case
    by (auto intro: prefix_order.trans)
qed

text \<open>
  C6, amended. On a host made from root files without duplicates, \<open>getScriptFileNames\<close>
  has no duplicates after any sequence of calls. Whatever the root files and in every
  state \<open>s\<close>, the names in \<open>s\<close> are an initial segment of the names after any further
  calls, so a name once present is never removed; and the file name of a source file is
  among the names after the host's \<open>updateFile\<close> of it, also when a \<open>createFile\<close> or
  an \<open>updateFile\<close> of the environment passes it to the host (a call that passes none
  throws and leaves the state).
\<close>

theorem fileNames_distinct_append_only:
  "(distinct rootFiles \<longrightarrow>
      distinct (getScriptFileNames (languageServiceHost
        (run ts cs (createVirtualLanguageServiceHost sys rootFiles options))))) \<and>
   prefix (fileNames s) (fileNames (run ts cs s)) \<and>
   set (getScriptFileNames (languageServiceHost s)) \<subseteq>
     set (getScriptFileNames (languageServiceHost (run ts cs s))) \<and>
   fileName sf \<in> set (getScriptFileNames (languageServiceHost (lsHost_updateFile sf s))) \<and>
   (routed ts c s = Some sf \<longrightarrow>
      exec ts c s = (Inr (), lsHost_updateFile sf s) \<and>
      fileName sf \<in> set (getScriptFileNames (languageServiceHost (snd (exec ts c s))))) \<and>
   (routed ts c s = None \<longrightarrow> exec ts c s = (Inl TypeError, s))"
proof -
  from run_fileNames[of "createVirtualLanguageServiceHost sys rootFiles options" ts cs]
  have d: "distinct rootFiles \<longrightarrow>
      distinct (getScriptFileNames (languageServiceHost
        (run ts cs (createVirtualLanguageServiceHost sys rootFiles options))))"
    by (simp add: languageServiceHost_def createVirtualLanguageServiceHost_def)
  from run_fileNames[of s ts cs] have p: "prefix (fileNames s) (fileNames (run ts cs s))"
    by simp
  then have m: "set (getScriptFileNames (languageServiceHost s)) \<subseteq>
      set (getScriptFileNames (languageServiceHost (run ts cs s)))"
    by (auto simp: languageServiceHost_def dest: set_mono_prefix)
  from d p m show ?thesis
    by (simp add: exec_routed languageServiceHost_def)
qed

text \<open>On a host made of nothing, three \<open>createFile\<close> calls, two of them for the same
  file, leave two names; the \<open>createFile\<close> of \<^verbatim>\<open>/x/../a.ts\<close> passes a source file named
  \<^verbatim>\<open>/a.ts\<close>, which is listed; an \<open>updateFile\<close> of a file the program does not have
  passes none and throws.\<close>

theorem fileNames_distinct_append_only_witness:
  "distinct (getScriptFileNames (languageServiceHost
     (run ts_resolving
        [CreateFile ''/b.ts'' ''let y = 1;'', CreateFile ''/x/../a.ts'' ''let x = 1;'',
         CreateFile ''/a.ts'' ''let x = 2;'']
        (createVirtualLanguageServiceHost [] []
           (mergeCompilerOptions defaultCompilerOptions \<lparr>target = None\<rparr>))))) \<and>
   getScriptFileNames (languageServiceHost
     (run ts_resolving
        [CreateFile ''/b.ts'' ''let y = 1;'', CreateFile ''/x/../a.ts'' ''let x = 1;'',
         CreateFile ''/a.ts'' ''let x = 2;'']
        (createVirtualLanguageServiceHost [] []
           (mergeCompilerOptions defaultCompilerOptions \<lparr>target = None\<rparr>)))) =
     [''/b.ts'', ''/a.ts''] \<and>
   routed ts_resolving (CreateFile ''/x/../a.ts'' ''let x = 1;'') (env_of [] []) =
     Some \<lparr>fileName = ''/a.ts'', text' = ''let x = 1;'', languageVersion = Some ES2015\<rparr> \<and>
   ''/a.ts'' \<in> set (getScriptFileNames (languageServiceHost
     (snd (exec ts_resolving (CreateFile ''/x/../a.ts'' ''let x = 1;'') (env_of [] []))))) \<and>
   routed ts_resolving (UpdateFile ''/a.ts'' ''2'' \<lparr>start = 8, length' = 1\<rparr>)
     (env_of [] []) = None \<and>
   exec ts_resolving (UpdateFile ''/a.ts'' ''2'' \<lparr>start = 8, length' = 1\<rparr>) (env_of [] []) =
     (Inl TypeError, env_of [] [])"
proof -
  let ?cs = "[CreateFile ''/b.ts'' ''let y = 1;'', CreateFile ''/x/../a.ts'' ''let x = 1;'',
      CreateFile ''/a.ts'' ''let x = 2;'']"
  let ?o = "mergeCompilerOptions defaultCompilerOptions \<lparr>target = None\<rparr>"
  let ?sf = "\<lparr>fileName = ''/a.ts'', text' = ''let x = 1;'', languageVersion = Some ES2015\<rparr>"
  have d: "distinct ([] :: string list)" by simp
  have n: "getScriptFileNames (languageServiceHost
      (run ts_resolving ?cs (createVirtualLanguageServiceHost [] [] ?o))) = [''/b.ts'', ''/a.ts'']"
    by (simp add: resolving_defs)
  have r: "routed ts_resolving (CreateFile ''/x/../a.ts'' ''let x = 1;'') (env_of [] []) = Some ?sf"
    by (simp add: resolving_defs)
  have u: "routed ts_resolving (UpdateFile ''/a.ts'' ''2'' \<lparr>start = 8, length' = 1\<rparr>)
      (env_of [] []) = (None :: char SourceFile option)"
    by (simp add: resolving_defs)
  from fileNames_distinct_append_only[of "[]" ts_resolving ?cs "[]" ?o "env_of [] []" ?sf
      "CreateFile ''/x/../a.ts'' ''let x = 1;''"] d r
  have a: "distinct (getScriptFileNames (languageServiceHost
      (run ts_resolving ?cs (createVirtualLanguageServiceHost [] [] ?o))))"
    and b: "''/a.ts'' \<in> set (getScriptFileNames (languageServiceHost
      (snd (exec ts_resolving (CreateFile ''/x/../a.ts'' ''let x = 1;'') (env_of [] [])))))"
    by auto
  from fileNames_distinct_append_only[of "[]" ts_resolving "[]" "[]" ?o "env_of [] []" ?sf
      "UpdateFile ''/a.ts'' ''2'' \<lparr>start = 8, length' = 1\<rparr>"] u
  have c: "exec ts_resolving (UpdateFile ''/a.ts'' ''2'' \<lparr>start = 8, length' = 1\<rparr>)
      (env_of [] []) = (Inl TypeError, env_of [] [])"
    by blast
  from a n r b u c show ?thesis by blast
qed

text \<open>The host copies the root files it is given as they are: given a path twice, it
  lists it twice. And the name listed for a \<open>createFile\<close> is the name of the source file,
  not the path of the call: after \<open>createFile\<close> of \<^verbatim>\<open>/x/../a.ts\<close> the list holds
  \<^verbatim>\<open>/a.ts\<close> and not \<^verbatim>\<open>/x/../a.ts\<close>.\<close>

theorem fileNames_duplicates_and_names_counterexample:
  "\<not> distinct (getScriptFileNames (languageServiceHost
      (createVirtualLanguageServiceHost ([] :: char Files) [''/a.ts'', ''/a.ts'']
         defaultCompilerOptions))) \<and>
   getScriptFileNames (languageServiceHost
      (createFile ts_resolving ''/x/../a.ts'' ''let x = 1;'' (env_of [] []))) = [''/a.ts''] \<and>
   ''/x/../a.ts'' \<notin> set (getScriptFileNames (languageServiceHost
      (createFile ts_resolving ''/x/../a.ts'' ''let x = 1;'' (env_of [] []))))"
  by (simp add: resolving_defs)


subsection \<open>createSystem keeps a map of its own\<close>

text \<open>The copy of a map, whose keys are distinct, has the entries of the map in their
  order.\<close>

lemma update_new_key: "k \<notin> fst ` set acc \<Longrightarrow> AList.update k v acc = acc @ [(k, v)]"
  by (induction acc) auto

lemma createSystem_distinct: "distinct (map fst m) \<Longrightarrow> createSystem m = m"
proof -
  have g: "distinct (map fst (acc @ m)) \<Longrightarrow>
      foldl (\<lambda>m (fileName, contents). AList.update fileName contents m) acc m = acc @ m"
    for acc
  proof (induction m arbitrary: acc)
    case Nil
    show ?case by simp
  next
    case (Cons kv m)
    obtain k v where kv: "kv = (k, v)" by (cases kv)
    from Cons.prems kv have "k \<notin> fst ` set acc" by auto
    then have "AList.update k v acc = acc @ [(k, v)]" by (rule update_new_key)
    with Cons.IH[of "acc @ [(k, v)]"] Cons.prems kv show ?case by simp
  qed
  assume "distinct (map fst m)"
  with g[of "[]"] show ?thesis by (simp add: createSystem_def)
qed

text \<open>
  C10. Let \<open>createSystem\<close> be given the map at the address \<open>a\<close> of the store \<open>h\<close>, and
  return the system \<open>sys\<close> and the store \<open>h1\<close>. The map of the system is at another
  address than \<open>a\<close> and holds the copy of the entries, and the map at \<open>a\<close> is as it was.
  In every later store \<open>h'\<close>, a \<open>writeFile\<close> of the system leaves the map at \<open>a\<close> as it
  is, and replacing the map at \<open>a\<close> by any map \<open>m\<close> changes the result of none of
  \<open>fileExists\<close>, \<open>readFile\<close>, \<open>directoryExists\<close> and \<open>readDirectory\<close> of the system.
\<close>

theorem createSystem_private_copy:
  assumes "a < length h" and "createSystem_at h a = (sys, h1)" and "length h1 \<le> length h'"
  shows "filesRef sys \<noteq> a \<and> h1 ! a = h ! a \<and>
         sys_readFile sys h1 f = readFile (createSystem (h ! a)) f \<and>
         sys_writeFile sys f c h' ! a = h' ! a \<and>
         sys_fileExists sys (h'[a := m]) f = sys_fileExists sys h' f \<and>
         sys_readFile sys (h'[a := m]) f = sys_readFile sys h' f \<and>
         sys_directoryExists sys (h'[a := m]) d = sys_directoryExists sys h' d \<and>
         sys_readDirectory sys (h'[a := m]) d = sys_readDirectory sys h' d"
  using assms
  by (auto simp: createSystem_at_def sys_readFile_def sys_writeFile_def sys_fileExists_def
      sys_directoryExists_def sys_readDirectory_def nth_append)

text \<open>The system made from the map \<^verbatim>\<open>{"/a.ts": "let x = 1;"}\<close> still reads the file
  after the caller has emptied that map, and its \<open>writeFile\<close> leaves the caller's map.\<close>

theorem createSystem_private_copy_witness:
  "sys_readFile (fst (createSystem_at [[(''/a.ts'', ''let x = 1;'')]] 0))
     ((snd (createSystem_at [[(''/a.ts'', ''let x = 1;'')]] 0))[0 := []]) ''/a.ts'' =
     Some ''let x = 1;'' \<and>
   sys_writeFile (fst (createSystem_at [[(''/a.ts'', ''let x = 1;'')]] 0))
     ''/a.ts'' ''let x = 2;''
     (snd (createSystem_at [[(''/a.ts'', ''let x = 1;'')]] 0)) ! 0 =
     [(''/a.ts'', ''let x = 1;'')]"
proof -
  have a: "0 < length [[(''/a.ts'', ''let x = 1;'')]]" by simp
  have c: "createSystem_at [[(''/a.ts'', ''let x = 1;'')]] 0 =
      (fst (createSystem_at [[(''/a.ts'', ''let x = 1;'')]] 0),
       snd (createSystem_at [[(''/a.ts'', ''let x = 1;'')]] 0))" by simp
  from createSystem_private_copy[OF a c order_refl, of "''/a.ts''" "''let x = 2;''" "[]"]
  show ?thesis
    by (simp add: createSystem_at_def createSystem_def sys_readFile_def readFile_def)
qed

end
